theory Spec2Isabelle
  imports Complex_Main "HOL-Library.Word"
begin

section \<open>Scalars, integers and handles\<close>

text \<open>
  The binding layer \<^verbatim>\<open>android_graphics_HardwareBufferRenderer.cpp\<close> passes 32-bit
  integers (\<^verbatim>\<open>jint\<close>, \<^verbatim>\<open>int\<close>), 64-bit handles (\<^verbatim>\<open>jlong\<close>) and single-precision
  scalars (\<^verbatim>\<open>jfloat\<close>, \<^verbatim>\<open>SkScalar\<close>) between the managed caller and the engine.

  Integers are machine words.  A scalar is modelled by the real number it denotes and
  scalar arithmetic is taken exactly; every closed evaluation below uses scalars and
  products that single precision represents exactly (small integers, 0.5, 0.375,
  95.625, ...), so the evaluation agrees with the machine there.  The conversion of an
  integer to a scalar is not exact in the program and is modelled with its rounding.
\<close>

type_synonym jint = "32 word"
type_synonym jlong = "64 word"
type_synonym SkScalar = real

text \<open>
  \<^verbatim>\<open>static_cast<SkScalar>(width)\<close> of a signed 32-bit integer.  Single precision
  has a significand of 24 bits: an integer of magnitude below \<open>2 ^ 24\<close> converts
  exactly, and a wider one loses its \<open>e\<close> excess low bits, rounded to the nearest
  multiple of \<open>2 ^ e\<close> with ties going to the even significand (the rounding of the
  platform's conversion instruction).  So 16777217 becomes 16777216 and 2147483647
  becomes 2147483648.  The magnitude of a \<^verbatim>\<open>jint\<close> is at most \<open>2 ^ 31\<close>, far below
  the overflow threshold, and the result is again an integer.

  \<open>bit_width a\<close> is the number of binary digits of \<open>a\<close>.
\<close>

fun bit_width :: "nat \<Rightarrow> nat" where
  "bit_width a = (if a = 0 then 0 else Suc (bit_width (a div 2)))"

declare bit_width.simps [simp del]

definition binary32_of_int :: "int \<Rightarrow> int" where
  "binary32_of_int i =
     (let a = \<bar>i\<bar>;
          e = bit_width (nat a) - 24;
          q = a div 2 ^ e;
          r = a mod 2 ^ e;
          q' = (if 2 * r > 2 ^ e \<or> (2 * r = 2 ^ e \<and> odd q) then q + 1 else q)
      in sgn i * (q' * 2 ^ e))"

definition SkScalar_of_jint :: "jint \<Rightarrow> SkScalar" where
  "SkScalar_of_jint n = real_of_int (binary32_of_int (sint n))"

section \<open>The 3x3 matrix of the graphics library\<close>

text \<open>
  \<^verbatim>\<open>SkMatrix\<close> belongs to the external graphics library.  The nine cells carry the
  library's names; the three operations the binding layer uses are modelled after the
  library's implementation: the default constructor gives the identity,
  \<^verbatim>\<open>setRotate(deg)\<close> overwrites the matrix with the rotation by \<open>deg\<close> degrees about
  the origin, and \<^verbatim>\<open>postTranslate(dx, dy)\<close> composes a translation after the
  matrix.
\<close>

record SkMatrix =
  kMScaleX :: SkScalar
  kMSkewX :: SkScalar
  kMTransX :: SkScalar
  kMSkewY :: SkScalar
  kMScaleY :: SkScalar
  kMTransY :: SkScalar
  kMPersp0 :: SkScalar
  kMPersp1 :: SkScalar
  kMPersp2 :: SkScalar

definition SkMatrix_I :: SkMatrix where
  "SkMatrix_I = \<lparr> kMScaleX = 1, kMSkewX = 0, kMTransX = 0,
                   kMSkewY = 0, kMScaleY = 1, kMTransY = 0,
                   kMPersp0 = 0, kMPersp1 = 0, kMPersp2 = 1 \<rparr>"

definition SkDegreesToRadians :: "SkScalar \<Rightarrow> SkScalar" where
  "SkDegreesToRadians deg = deg * (pi / 180)"

definition setSinCos :: "SkScalar \<Rightarrow> SkScalar \<Rightarrow> SkMatrix \<Rightarrow> SkMatrix" where
  "setSinCos sinV cosV m =
     \<lparr> kMScaleX = cosV, kMSkewX = - sinV, kMTransX = 0,
       kMSkewY = sinV, kMScaleY = cosV, kMTransY = 0,
       kMPersp0 = 0, kMPersp1 = 0, kMPersp2 = 1 \<rparr>"

definition setRotate :: "SkScalar \<Rightarrow> SkMatrix \<Rightarrow> SkMatrix" where
  "setRotate deg m =
     setSinCos (sin (SkDegreesToRadians deg)) (cos (SkDegreesToRadians deg)) m"

definition setTranslate :: "SkScalar \<Rightarrow> SkScalar \<Rightarrow> SkMatrix \<Rightarrow> SkMatrix" where
  "setTranslate dx dy m =
     \<lparr> kMScaleX = 1, kMSkewX = 0, kMTransX = dx,
       kMSkewY = 0, kMScaleY = 1, kMTransY = dy,
       kMPersp0 = 0, kMPersp1 = 0, kMPersp2 = 1 \<rparr>"

text \<open>\<open>concat a b\<close> is the matrix product \<open>a * b\<close>: \<open>b\<close> is applied to a point first.\<close>

definition concat :: "SkMatrix \<Rightarrow> SkMatrix \<Rightarrow> SkMatrix" where
  "concat a b =
     \<lparr> kMScaleX = kMScaleX a * kMScaleX b + kMSkewX a * kMSkewY b + kMTransX a * kMPersp0 b,
       kMSkewX = kMScaleX a * kMSkewX b + kMSkewX a * kMScaleY b + kMTransX a * kMPersp1 b,
       kMTransX = kMScaleX a * kMTransX b + kMSkewX a * kMTransY b + kMTransX a * kMPersp2 b,
       kMSkewY = kMSkewY a * kMScaleX b + kMScaleY a * kMSkewY b + kMTransY a * kMPersp0 b,
       kMScaleY = kMSkewY a * kMSkewX b + kMScaleY a * kMScaleY b + kMTransY a * kMPersp1 b,
       kMTransY = kMSkewY a * kMTransX b + kMScaleY a * kMTransY b + kMTransY a * kMPersp2 b,
       kMPersp0 = kMPersp0 a * kMScaleX b + kMPersp1 a * kMSkewY b + kMPersp2 a * kMPersp0 b,
       kMPersp1 = kMPersp0 a * kMSkewX b + kMPersp1 a * kMScaleY b + kMPersp2 a * kMPersp1 b,
       kMPersp2 = kMPersp0 a * kMTransX b + kMPersp1 a * kMTransY b + kMPersp2 a * kMPersp2 b \<rparr>"

definition hasPerspective :: "SkMatrix \<Rightarrow> bool" where
  "hasPerspective m \<longleftrightarrow> \<not> (kMPersp0 m = 0 \<and> kMPersp1 m = 0 \<and> kMPersp2 m = 1)"

definition postTranslate :: "SkScalar \<Rightarrow> SkScalar \<Rightarrow> SkMatrix \<Rightarrow> SkMatrix" where
  "postTranslate dx dy m =
     (if hasPerspective m then concat (setTranslate dx dy SkMatrix_I) m
      else m \<lparr> kMTransX := kMTransX m + dx, kMTransY := kMTransY m + dy \<rparr>)"

text \<open>
  \<^verbatim>\<open>mapXY\<close>: the image of a point under the matrix, with the perspective division
  where the last row is not \<open>(0, 0, 1)\<close>.
\<close>

definition mapXY :: "SkMatrix \<Rightarrow> SkScalar \<times> SkScalar \<Rightarrow> SkScalar \<times> SkScalar" where
  "mapXY m p =
     (let x = fst p; y = snd p;
          sx = kMScaleX m * x + kMSkewX m * y + kMTransX m;
          sy = kMSkewY m * x + kMScaleY m * y + kMTransY m;
          z = kMPersp0 m * x + kMPersp1 m * y + kMPersp2 m
      in if hasPerspective m then (sx / z, sy / z) else (sx, sy))"

section \<open>The transform builder\<close>

text \<open>
  The buffer-transform constants of \<^verbatim>\<open>android/native_window.h\<close> (a platform header):
  mirror-horizontal is 1, mirror-vertical is 2, rotate-90 is 4, rotate-180 is both
  mirrors (3) and rotate-270 is rotate-180 together with rotate-90 (7).
\<close>

definition ANATIVEWINDOW_TRANSFORM_IDENTITY :: jint where
  "ANATIVEWINDOW_TRANSFORM_IDENTITY = 0"

definition ANATIVEWINDOW_TRANSFORM_ROTATE_90 :: jint where
  "ANATIVEWINDOW_TRANSFORM_ROTATE_90 = 4"

definition ANATIVEWINDOW_TRANSFORM_ROTATE_180 :: jint where
  "ANATIVEWINDOW_TRANSFORM_ROTATE_180 = 3"

definition ANATIVEWINDOW_TRANSFORM_ROTATE_270 :: jint where
  "ANATIVEWINDOW_TRANSFORM_ROTATE_270 = 7"

text \<open>The one record that \<^verbatim>\<open>ALOGE\<close> writes in the \<^verbatim>\<open>default\<close> branch.\<close>

definition invalid_transform_message :: string where
  "invalid_transform_message =
     ''Invalid transform provided. Transform should be validated from'' @
     ''the java side. Leveraging identity transform as a fallback''"

text \<open>
  \<^verbatim>\<open>createMatrixFromBufferTransform(width, height, transform)\<close>.  The result is the
  matrix together with the log records the call emits.  The \<^verbatim>\<open>default\<close> branch logs
  and falls through to the identity branch, which leaves the freshly constructed
  matrix as it is.
\<close>

definition createMatrixFromBufferTransform ::
  "SkScalar \<Rightarrow> SkScalar \<Rightarrow> jint \<Rightarrow> SkMatrix \<times> string list" where
  "createMatrixFromBufferTransform width height transform =
     (let matrix = SkMatrix_I in
      if transform = ANATIVEWINDOW_TRANSFORM_ROTATE_90 then
        (postTranslate width 0 (setRotate 90 matrix), [])
      else if transform = ANATIVEWINDOW_TRANSFORM_ROTATE_180 then
        (postTranslate width height (setRotate 180 matrix), [])
      else if transform = ANATIVEWINDOW_TRANSFORM_ROTATE_270 then
        (postTranslate 0 width (setRotate 270 matrix), [])
      else if transform = ANATIVEWINDOW_TRANSFORM_IDENTITY then
        (matrix, [])
      else
        (matrix, [invalid_transform_message]))"

section \<open>The managed runtime as seen from the binding layer\<close>

text \<open>
  A \<^verbatim>\<open>jobject\<close> is an opaque reference to a managed object; the null reference is
  \<open>None\<close> of \<open>jobject option\<close>.  Of the runtime environment the binding layer uses
  \<^verbatim>\<open>GetJavaVM\<close>, which may fail (\<open>javaVM = None\<close> stands for a result other than
  \<^verbatim>\<open>JNI_OK\<close>), and \<^verbatim>\<open>NewGlobalRef\<close>, which adds a global reference.
\<close>

datatype jobject = JObject nat

datatype JavaVM = JavaVM nat

record JNIEnv =
  javaVM :: "JavaVM option"
  globalRefs :: "jobject list"

text \<open>
  The ways in which a call does not return: \<^verbatim>\<open>LOG_ALWAYS_FATAL_IF\<close> aborts the process,
  and C++ leaves some operations undefined (a conversion whose value does not fit, the
  use of a handle that names no live object).
\<close>

datatype failure = LogAlwaysFatal string | UndefinedBehaviour string

section \<open>The completion callback\<close>

text \<open>
  \<^verbatim>\<open>android::base::unique_fd\<close> (platform base library) owns a descriptor unless it
  holds \<open>-1\<close>.  \<^verbatim>\<open>release()\<close> hands the descriptor out and leaves \<open>-1\<close> behind; the
  destructor closes the descriptor it still owns.  The second component of the
  destructor's state is the list of descriptors the native side has closed.
\<close>

record unique_fd =
  fd_field :: jint

definition release :: "unique_fd \<Rightarrow> jint \<times> unique_fd" where
  "release u = (fd_field u, u \<lparr> fd_field := - 1 \<rparr>)"

definition unique_fd_destructor :: "unique_fd \<Rightarrow> jint list \<Rightarrow> jint list" where
  "unique_fd_destructor u closed_fds =
     (if fd_field u \<noteq> - 1 then closed_fds @ [fd_field u] else closed_fds)"

text \<open>
  \<^verbatim>\<open>JGlobalRefHolder\<close> keeps the virtual machine and the global reference to the
  caller's sink.  A \<^verbatim>\<open>RenderCallback\<close> is a \<^verbatim>\<open>std::function\<close>: either empty
  (\<^verbatim>\<open>nullptr\<close>, here \<open>None\<close>) or the closure built by \<^verbatim>\<open>createRenderCallback\<close>,
  which captures the holder.
\<close>

record JGlobalRefHolder =
  mVm :: JavaVM
  mGlobalRef :: jobject

datatype RenderCallback = RenderCallback (globalCallbackRef: JGlobalRefHolder)

definition createRenderCallback ::
  "JNIEnv \<Rightarrow> jobject option \<Rightarrow> failure + (RenderCallback option \<times> JNIEnv)" where
  "createRenderCallback env releaseCallback =
     (case releaseCallback of
        None \<Rightarrow> Inr (None, env)
      | Some obj \<Rightarrow>
          (case javaVM env of
             None \<Rightarrow> Inl (LogAlwaysFatal ''Unable to get Java VM'')
           | Some vm \<Rightarrow>
               Inr (Some (RenderCallback \<lparr> mVm = vm, mGlobalRef = obj \<rparr>),
                    env \<lparr> globalRefs := globalRefs env @ [obj] \<rparr>)))"

text \<open>
  A call from native code into the managed class: the static method
  \<^verbatim>\<open>invokeRenderCallback(Consumer, int, int)\<close> with its three arguments.
\<close>

datatype java_call = invokeRenderCallback jobject jint jint

text \<open>
  The body of the closure, run on \<^verbatim>\<open>(fd, status)\<close>: it releases the descriptor and
  passes the raw value to the managed method.  The result is the managed calls made
  and the state of the caller's \<^verbatim>\<open>unique_fd\<close> afterwards.
\<close>

definition call_RenderCallback ::
  "RenderCallback \<Rightarrow> unique_fd \<Rightarrow> jint \<Rightarrow> java_call list \<times> unique_fd" where
  "call_RenderCallback cb fd status =
     (let (raw, fd') = release fd
      in ([invokeRenderCallback (mGlobalRef (globalCallbackRef cb)) raw status], fd'))"

section \<open>The render proxy\<close>

text \<open>
  Modelled from the spec: the class \<^verbatim>\<open>RenderProxy\<close> and its setters (the engine's
  source is not part of the binding layer).  A proxy has the root it is bound to, a
  target buffer, the current render parameters (transform, colour space, optional
  completion callback) and the light settings; each setter stores its arguments for
  the next render and does not itself trigger rendering.
\<close>

datatype SkColorSpace = SkColorSpace nat

datatype AHardwareBuffer = AHardwareBuffer nat

record HardwareBufferRenderParams =
  mTransform :: SkMatrix
  mColorSpace :: SkColorSpace
  mRenderCallback :: "RenderCallback option"

record RenderProxy =
  rootRenderNode :: jlong
  mHardwareBuffer :: "AHardwareBuffer option"
  mHardwareBufferRenderParams :: "HardwareBufferRenderParams option"
  mLightGeometry :: "((SkScalar \<times> SkScalar \<times> SkScalar) \<times> SkScalar) option"
  mLightAlpha :: "(8 word \<times> 8 word) option"

definition setHardwareBuffer :: "AHardwareBuffer \<Rightarrow> RenderProxy \<Rightarrow> RenderProxy" where
  "setHardwareBuffer buffer proxy = proxy \<lparr> mHardwareBuffer := Some buffer \<rparr>"

definition setHardwareBufferRenderParams ::
  "HardwareBufferRenderParams \<Rightarrow> RenderProxy \<Rightarrow> RenderProxy" where
  "setHardwareBufferRenderParams params proxy =
     proxy \<lparr> mHardwareBufferRenderParams := Some params \<rparr>"

definition setLightGeometry ::
  "(SkScalar \<times> SkScalar \<times> SkScalar) \<Rightarrow> SkScalar \<Rightarrow> RenderProxy \<Rightarrow> RenderProxy" where
  "setLightGeometry lightCenter lightRadius proxy =
     proxy \<lparr> mLightGeometry := Some (lightCenter, lightRadius) \<rparr>"

definition setLightAlpha :: "8 word \<Rightarrow> 8 word \<Rightarrow> RenderProxy \<Rightarrow> RenderProxy" where
  "setLightAlpha ambientShadowAlpha spotShadowAlpha proxy =
     proxy \<lparr> mLightAlpha := Some (ambientShadowAlpha, spotShadowAlpha) \<rparr>"

text \<open>
  \<^verbatim>\<open>android_graphics_HardwareBufferRenderer_render\<close>.  The engine's synchronous
  step \<^verbatim>\<open>syncAndDrawFrame\<close> and the colour-space resolver
  \<^verbatim>\<open>GraphicsJNI::getNativeColorSpace\<close> are parameters.  The arguments of
  \<^verbatim>\<open>setHardwareBufferRenderParams\<close>, the callback among them, are evaluated before the
  call, so an abort in \<^verbatim>\<open>createRenderCallback\<close> leaves the proxy untouched.  A
  returning call yields the status, the proxy, the environment and the log records
  written.
\<close>

definition android_graphics_HardwareBufferRenderer_render ::
  "(RenderProxy \<Rightarrow> jint \<times> RenderProxy) \<Rightarrow> (jlong \<Rightarrow> SkColorSpace) \<Rightarrow>
   JNIEnv \<Rightarrow> RenderProxy \<Rightarrow> jint \<Rightarrow> jint \<Rightarrow> jint \<Rightarrow> jlong \<Rightarrow> jobject option \<Rightarrow>
   failure + (jint \<times> RenderProxy \<times> JNIEnv \<times> string list)" where
  "android_graphics_HardwareBufferRenderer_render syncAndDrawFrame getNativeColorSpace
       env proxy transform width height colorspacePtr consumer =
     (let skWidth = SkScalar_of_jint width;
          skHeight = SkScalar_of_jint height;
          (matrix, logged) = createMatrixFromBufferTransform skWidth skHeight transform;
          colorSpace = getNativeColorSpace colorspacePtr
      in case createRenderCallback env consumer of
           Inl f \<Rightarrow> Inl f
         | Inr (callback, env') \<Rightarrow>
             (let proxy' = setHardwareBufferRenderParams
                    \<lparr> mTransform = matrix, mColorSpace = colorSpace,
                      mRenderCallback = callback \<rparr> proxy;
                  (status, proxy'') = syncAndDrawFrame proxy'
              in Inr (status, proxy'', env', logged)))"

text \<open>
  The C++ conversion \<^verbatim>\<open>(uint8_t)x\<close> of a scalar: the fractional part is discarded
  (truncation toward zero), and the conversion is undefined when the truncated value is
  not one of \<open>0 .. 255\<close>.
\<close>

definition truncate_toward_zero :: "SkScalar \<Rightarrow> int" where
  "truncate_toward_zero x = (if 0 \<le> x then \<lfloor>x\<rfloor> else \<lceil>x\<rceil>)"

definition to_uint8_t :: "SkScalar \<Rightarrow> 8 word option" where
  "to_uint8_t x =
     (let t = truncate_toward_zero x
      in if 0 \<le> t \<and> t \<le> 255 then Some (word_of_int t) else None)"

definition android_graphics_HardwareBufferRenderer_setLightAlpha ::
  "RenderProxy \<Rightarrow> SkScalar \<Rightarrow> SkScalar \<Rightarrow> failure + RenderProxy" where
  "android_graphics_HardwareBufferRenderer_setLightAlpha proxy ambientShadowAlpha spotShadowAlpha =
     (case (to_uint8_t (255 * ambientShadowAlpha), to_uint8_t (255 * spotShadowAlpha)) of
        (Some a, Some s) \<Rightarrow> Inr (setLightAlpha a s proxy)
      | _ \<Rightarrow> Inl (UndefinedBehaviour ''float to uint8_t conversion out of range''))"

definition android_graphics_HardwareBufferRenderer_setLightGeometry ::
  "RenderProxy \<Rightarrow> SkScalar \<Rightarrow> SkScalar \<Rightarrow> SkScalar \<Rightarrow> SkScalar \<Rightarrow> RenderProxy" where
  "android_graphics_HardwareBufferRenderer_setLightGeometry proxy lightX lightY lightZ lightRadius =
     setLightGeometry (lightX, lightY, lightZ) lightRadius proxy"

section \<open>Native objects and their handles\<close>

text \<open>
  Modelled from the spec: the class \<^verbatim>\<open>RootRenderNode\<close> (its header and source are not
  part of the binding layer).  A render root has an error-reporting sink, a debug name
  and a strong reference count; a newly constructed root has no name and count zero,
  \<^verbatim>\<open>incStrong\<close> adds one to the count and \<^verbatim>\<open>setName\<close> stores the name.  The sink is
  a \<^verbatim>\<open>JvmErrorReporter\<close>, which keeps the virtual machine of the environment it was
  built from.
\<close>

record RootRenderNode =
  mName :: string
  mCount :: nat
  mErrorHandler :: "JavaVM option"

definition RootRenderNode_new :: "JavaVM option \<Rightarrow> RootRenderNode" where
  "RootRenderNode_new errorHandler =
     \<lparr> mName = [], mCount = 0, mErrorHandler = errorHandler \<rparr>"

definition JvmErrorReporter :: "JNIEnv \<Rightarrow> JavaVM option" where
  "JvmErrorReporter env = javaVM env"

text \<open>
  The native heap: the live render roots and the live proxies, by address.  A handle
  is the address of the object, cast to a 64-bit integer.
\<close>

record NativeHeap =
  nodes :: "jlong \<rightharpoonup> RootRenderNode"
  proxies :: "jlong \<rightharpoonup> RenderProxy"

definition live :: "NativeHeap \<Rightarrow> jlong set" where
  "live heap = dom (nodes heap) \<union> dom (proxies heap)"

definition update_node ::
  "jlong \<Rightarrow> (RootRenderNode \<Rightarrow> RootRenderNode) \<Rightarrow> NativeHeap \<Rightarrow> NativeHeap" where
  "update_node p f heap =
     (case nodes heap p of
        None \<Rightarrow> heap
      | Some node \<Rightarrow> heap \<lparr> nodes := (nodes heap)(p \<mapsto> f node) \<rparr>)"

definition incStrong :: "jlong \<Rightarrow> NativeHeap \<Rightarrow> NativeHeap" where
  "incStrong p heap = update_node p (\<lambda>node. node \<lparr> mCount := mCount node + 1 \<rparr>) heap"

definition setName :: "string \<Rightarrow> jlong \<Rightarrow> NativeHeap \<Rightarrow> NativeHeap" where
  "setName n p heap = update_node p (\<lambda>node. node \<lparr> mName := n \<rparr>) heap"

text \<open>
  Modelled from the spec: \<^verbatim>\<open>decStrong\<close> of the reference-counted base class (not part
  of the binding layer).  Releasing the last strong reference deletes the object.
\<close>

definition decStrong :: "jlong \<Rightarrow> NativeHeap \<Rightarrow> NativeHeap" where
  "decStrong p heap =
     (case nodes heap p of
        None \<Rightarrow> heap
      | Some node \<Rightarrow>
          if mCount node \<le> 1 then heap \<lparr> nodes := (nodes heap)(p := None) \<rparr>
          else heap \<lparr> nodes := (nodes heap)(p \<mapsto> node \<lparr> mCount := mCount node - 1 \<rparr>) \<rparr>)"

text \<open>
  \<^verbatim>\<open>android_graphics_HardwareBufferRenderer_createRootNode\<close>.  The allocator
  \<^verbatim>\<open>operator new\<close> is a parameter: it chooses the address of the new object from the
  set of live addresses.  The result is the handle and the heap.
\<close>

definition android_graphics_HardwareBufferRenderer_createRootNode ::
  "(jlong set \<Rightarrow> jlong) \<Rightarrow> JNIEnv \<Rightarrow> NativeHeap \<Rightarrow> jlong \<times> NativeHeap" where
  "android_graphics_HardwareBufferRenderer_createRootNode operator_new env heap =
     (let node = operator_new (live heap);
          heap1 = heap \<lparr> nodes := (nodes heap)(node \<mapsto> RootRenderNode_new (JvmErrorReporter env)) \<rparr>;
          heap2 = incStrong node heap1;
          heap3 = setName ''RootRenderNode'' node heap2
      in (node, heap3))"

text \<open>
  Modelled from the spec: the constructor and the destructor of \<^verbatim>\<open>RenderProxy\<close> (the
  class is not part of the binding layer).  A proxy shares ownership of the root it is
  bound to: construction takes a strong reference on the root, destruction releases the
  buffer binding together with the proxy's own storage and gives the root reference
  back.
\<close>

definition RenderProxy_new :: "jlong \<Rightarrow> jlong \<Rightarrow> NativeHeap \<Rightarrow> NativeHeap" where
  "RenderProxy_new p rootNode heap =
     incStrong rootNode
       (heap \<lparr> proxies := (proxies heap)(p \<mapsto>
          \<lparr> rootRenderNode = rootNode, mHardwareBuffer = None,
            mHardwareBufferRenderParams = None, mLightGeometry = None,
            mLightAlpha = None \<rparr>) \<rparr>)"

definition RenderProxy_delete :: "jlong \<Rightarrow> RenderProxy \<Rightarrow> NativeHeap \<Rightarrow> NativeHeap" where
  "RenderProxy_delete p proxy heap =
     decStrong (rootRenderNode proxy) (heap \<lparr> proxies := (proxies heap)(p := None) \<rparr>)"

text \<open>
  \<^verbatim>\<open>android_graphics_HardwareBufferRenderer_create\<close>.  The buffer resolver
  \<^verbatim>\<open>AHardwareBuffer_fromHardwareBuffer\<close> is a parameter.  A root handle that names no
  live root is a dangling pointer.
\<close>

definition android_graphics_HardwareBufferRenderer_create ::
  "(jlong set \<Rightarrow> jlong) \<Rightarrow> (jobject \<Rightarrow> AHardwareBuffer) \<Rightarrow>
   NativeHeap \<Rightarrow> jobject \<Rightarrow> jlong \<Rightarrow> failure + (jlong \<times> NativeHeap)" where
  "android_graphics_HardwareBufferRenderer_create operator_new fromHardwareBuffer
       heap buffer renderNodePtr =
     (let hardwareBuffer = fromHardwareBuffer buffer in
      case nodes heap renderNodePtr of
        None \<Rightarrow> Inl (UndefinedBehaviour ''dangling root handle'')
      | Some rootNode \<Rightarrow>
          (let proxy = operator_new (live heap);
               heap1 = RenderProxy_new proxy renderNodePtr heap;
               heap2 = heap1 \<lparr> proxies :=
                         (proxies heap1)(proxy := map_option (setHardwareBuffer hardwareBuffer)
                                                    (proxies heap1 proxy)) \<rparr>
           in Inr (proxy, heap2)))"

text \<open>
  \<^verbatim>\<open>HardwareBufferRenderer_destroy\<close>: \<^verbatim>\<open>delete\<close> on the proxy the handle names.
  Deleting through a handle that names no live proxy is undefined.
\<close>

definition HardwareBufferRenderer_destroy :: "jlong \<Rightarrow> NativeHeap \<Rightarrow> failure + NativeHeap" where
  "HardwareBufferRenderer_destroy renderProxy heap =
     (case proxies heap renderProxy of
        None \<Rightarrow> Inl (UndefinedBehaviour ''delete of a dangling proxy handle'')
      | Some proxy \<Rightarrow> Inr (RenderProxy_delete renderProxy proxy heap))"

text \<open>
  \<^verbatim>\<open>android_graphics_HardwareBufferRenderer_getFinalizer\<close> returns the address of
  \<^verbatim>\<open>HardwareBufferRenderer_destroy\<close> as an integer.  Where the routines of the library
  are placed is a parameter; the caller's finalization system later calls whatever
  routine sits at the address it was given, with the proxy handle as the argument.
\<close>

datatype native_routine = Routine_HardwareBufferRenderer_destroy

definition android_graphics_HardwareBufferRenderer_getFinalizer ::
  "(native_routine \<Rightarrow> jlong) \<Rightarrow> jlong" where
  "android_graphics_HardwareBufferRenderer_getFinalizer address_of =
     address_of Routine_HardwareBufferRenderer_destroy"

definition call_native_routine ::
  "(native_routine \<Rightarrow> jlong) \<Rightarrow> jlong \<Rightarrow> jlong \<Rightarrow> NativeHeap \<Rightarrow> failure + NativeHeap" where
  "call_native_routine address_of address arg heap =
     (if address = address_of Routine_HardwareBufferRenderer_destroy
      then HardwareBufferRenderer_destroy arg heap
      else Inl (UndefinedBehaviour ''call through an address that is no routine''))"

section \<open>What the specification says, in its own words\<close>

text \<open>
  The specification describes the transform as a rotation about the origin followed by
  a translation, and the target of the transform as the physical rectangle
  \<open>[0, width] \<times> [0, height]\<close>.
\<close>

definition rotate_about_origin :: "real \<Rightarrow> real \<times> real \<Rightarrow> real \<times> real" where
  "rotate_about_origin deg p =
     (fst p * cos (deg * pi / 180) - snd p * sin (deg * pi / 180),
      fst p * sin (deg * pi / 180) + snd p * cos (deg * pi / 180))"

definition translate_by :: "real \<times> real \<Rightarrow> real \<times> real \<Rightarrow> real \<times> real" where
  "translate_by d p = (fst p + fst d, snd p + snd d)"

definition in_physical_rect :: "real \<Rightarrow> real \<Rightarrow> real \<times> real \<Rightarrow> bool" where
  "in_physical_rect width height p \<longleftrightarrow>
     0 \<le> fst p \<and> fst p \<le> width \<and> 0 \<le> snd p \<and> snd p \<le> height"

definition physical_corners :: "real \<Rightarrow> real \<Rightarrow> (real \<times> real) set" where
  "physical_corners width height = {(0, 0), (width, 0), (width, height), (0, height)}"

text \<open>
  The logical content rectangle of a buffer whose physical size is \<open>width \<times> height\<close>:
  under a quarter turn its sides are swapped.  Its corners, in order.
\<close>

definition logical_corners :: "real \<Rightarrow> real \<Rightarrow> jint \<Rightarrow> (real \<times> real) list" where
  "logical_corners width height transform =
     (if transform = ANATIVEWINDOW_TRANSFORM_ROTATE_90
         \<or> transform = ANATIVEWINDOW_TRANSFORM_ROTATE_270
      then [(0, 0), (height, 0), (height, width), (0, width)]
      else [(0, 0), (width, 0), (width, height), (0, height)])"

text \<open>
  The specification's formula for a stored light alpha:
  \<open>round(clamp(value, 0, 1) * 255)\<close>.
\<close>

definition clamp01 :: "real \<Rightarrow> real" where
  "clamp01 v = max 0 (min 1 v)"

definition spec_light_alpha :: "real \<Rightarrow> int" where
  "spec_light_alpha v = round (clamp01 v * 255)"

text \<open>
  The specification's explicit destroy of a proxy: the proxy is destroyed, its buffer
  binding is released (no proxy at that address binds a buffer any more) and its
  reference on the root is given back (the root's count drops by one, and the root
  goes with its last reference); nothing else changes.
\<close>

definition root_reference_released ::
  "(jlong \<rightharpoonup> RootRenderNode) \<Rightarrow> jlong \<Rightarrow> (jlong \<rightharpoonup> RootRenderNode) \<Rightarrow> bool" where
  "root_reference_released before r after =
     (case before r of
        None \<Rightarrow> after = before
      | Some node \<Rightarrow>
          (if 1 < mCount node
           then after = before(r \<mapsto> node \<lparr> mCount := mCount node - 1 \<rparr>)
           else after = before(r := None)))"

definition proxy_destroyed :: "NativeHeap \<Rightarrow> jlong \<Rightarrow> NativeHeap \<Rightarrow> bool" where
  "proxy_destroyed before p after =
     (case proxies before p of
        None \<Rightarrow> False
      | Some proxy \<Rightarrow>
          proxies after = (proxies before)(p := None)
          \<and> root_reference_released (nodes before) (rootRenderNode proxy) (nodes after))"

section \<open>Concrete collaborators for closed evaluations\<close>

definition example_proxy :: RenderProxy where
  "example_proxy =
     \<lparr> rootRenderNode = 4096, mHardwareBuffer = Some (AHardwareBuffer 1),
       mHardwareBufferRenderParams = None, mLightGeometry = None, mLightAlpha = None \<rparr>"

definition example_syncAndDrawFrame :: "RenderProxy \<Rightarrow> jint \<times> RenderProxy" where
  "example_syncAndDrawFrame proxy = (0, proxy)"

definition example_getNativeColorSpace :: "jlong \<Rightarrow> SkColorSpace" where
  "example_getNativeColorSpace ptr = SkColorSpace (unat ptr)"

definition example_env :: JNIEnv where
  "example_env = \<lparr> javaVM = Some (JavaVM 1), globalRefs = [] \<rparr>"

definition example_env_without_vm :: JNIEnv where
  "example_env_without_vm = \<lparr> javaVM = None, globalRefs = [] \<rparr>"

definition example_operator_new :: "jlong set \<Rightarrow> jlong" where
  "example_operator_new used = (if 4096 \<in> used then 8192 else 4096)"

definition example_fromHardwareBuffer :: "jobject \<Rightarrow> AHardwareBuffer" where
  "example_fromHardwareBuffer buffer = (case buffer of JObject n \<Rightarrow> AHardwareBuffer n)"

definition example_address_of :: "native_routine \<Rightarrow> jlong" where
  "example_address_of r = 65536"

definition empty_heap :: NativeHeap where
  "empty_heap = \<lparr> nodes = Map.empty, proxies = Map.empty \<rparr>"

text \<open>
  The heap after one root has been created and one proxy has been bound to it and to
  a buffer, with no render call made on the proxy.
\<close>

definition example_heap :: NativeHeap where
  "example_heap =
     \<lparr> nodes = [4096 \<mapsto> \<lparr> mName = ''RootRenderNode'', mCount = 2,
                            mErrorHandler = Some (JavaVM 1) \<rparr>],
       proxies = [8192 \<mapsto> \<lparr> rootRenderNode = 4096,
                              mHardwareBuffer = Some (AHardwareBuffer 3),
                              mHardwareBufferRenderParams = None, mLightGeometry = None,
                              mLightAlpha = None \<rparr>] \<rparr>"

section \<open>Facts about the integer-to-scalar conversion\<close>

lemma bit_width_le: "a < 2 ^ n \<Longrightarrow> bit_width a \<le> n"
proof (induction n arbitrary: a)
  case 0
  then show ?case by (simp add: bit_width.simps)
next
  case (Suc n)
  show ?case
  proof (cases "a = 0")
    case True
    then show ?thesis by (simp add: bit_width.simps)
  next
    case False
    have "a div 2 < 2 ^ n" using Suc.prems by simp
    then have "bit_width (a div 2) \<le> n" by (rule Suc.IH)
    then show ?thesis using False by (subst bit_width.simps) simp
  qed
qed

lemma bit_width_ge: "2 ^ n \<le> a \<Longrightarrow> Suc n \<le> bit_width a"
proof (induction n arbitrary: a)
  case 0
  then show ?case by (subst bit_width.simps) simp
next
  case (Suc n)
  have "2 ^ n \<le> a div 2" using Suc.prems by simp
  then have ih: "Suc n \<le> bit_width (a div 2)" by (rule Suc.IH)
  have "(0::nat) < 2 ^ Suc n" by simp
  then have "0 < a" using Suc.prems by (rule less_le_trans)
  then have "a \<noteq> 0" by simp
  with ih show ?case by (subst bit_width.simps) simp
qed

lemma bit_width_eq: "2 ^ n \<le> a \<Longrightarrow> a < 2 ^ Suc n \<Longrightarrow> bit_width a = Suc n"
  using bit_width_ge [of n a] bit_width_le [of a "Suc n"] by simp

text \<open>Below \<open>2 ^ 24\<close> the conversion is exact.\<close>

lemma binary32_of_int_exact:
  assumes "\<bar>i\<bar> < 2 ^ 24"
  shows "binary32_of_int i = i"
proof -
  have "nat \<bar>i\<bar> < 2 ^ 24" using assms by (simp add: nat_less_iff)
  then have "bit_width (nat \<bar>i\<bar>) \<le> 24" by (rule bit_width_le)
  then have e: "bit_width (nat \<bar>i\<bar>) - 24 = 0" by simp
  show ?thesis
    by (simp add: binary32_of_int_def e Let_def mult_sgn_abs)
qed

lemma SkScalar_of_jint_exact:
  assumes "\<bar>sint n\<bar> < 2 ^ 24"
  shows "SkScalar_of_jint n = real_of_int (sint n)"
  using assms by (simp add: SkScalar_of_jint_def binary32_of_int_exact)

lemma SkScalar_of_jint_100_200:
  "SkScalar_of_jint 100 = 100" "SkScalar_of_jint 200 = 200"
  by (simp_all add: SkScalar_of_jint_def binary32_of_int_exact)

text \<open>Above it the conversion rounds: a tie to the even significand, the largest
  \<^verbatim>\<open>jint\<close> up to \<open>2 ^ 31\<close>, and a negative value symmetrically.\<close>

lemma binary32_of_int_16777217: "binary32_of_int 16777217 = 16777216"
proof -
  have "bit_width (nat \<bar>16777217\<bar>) = Suc 24"
    by (rule bit_width_eq) simp_all
  then show ?thesis
    by (simp add: binary32_of_int_def Let_def)
qed

lemma binary32_of_int_2147483647: "binary32_of_int 2147483647 = 2147483648"
proof -
  have "bit_width (nat \<bar>2147483647\<bar>) = Suc 30"
    by (rule bit_width_eq) simp_all
  then show ?thesis
    by (simp add: binary32_of_int_def Let_def)
qed

lemma binary32_of_int_minus_16777219: "binary32_of_int (- 16777219) = - 16777220"
proof -
  have "bit_width (nat \<bar>- 16777219\<bar>) = Suc 24"
    by (rule bit_width_eq) simp_all
  then show ?thesis
    by (simp add: binary32_of_int_def Let_def)
qed

lemma SkScalar_of_jint_16777217: "SkScalar_of_jint 16777217 = 16777216"
proof -
  have "sint (16777217 :: 32 word) = 16777217" by simp
  then show ?thesis by (simp add: SkScalar_of_jint_def binary32_of_int_16777217)
qed

section \<open>Facts about the matrix operations\<close>

lemma setRotate_90:
  "setRotate 90 m = \<lparr> kMScaleX = 0, kMSkewX = - 1, kMTransX = 0,
                       kMSkewY = 1, kMScaleY = 0, kMTransY = 0,
                       kMPersp0 = 0, kMPersp1 = 0, kMPersp2 = 1 \<rparr>"
  by (simp add: setRotate_def setSinCos_def SkDegreesToRadians_def)

lemma setRotate_180:
  "setRotate 180 m = \<lparr> kMScaleX = - 1, kMSkewX = 0, kMTransX = 0,
                        kMSkewY = 0, kMScaleY = - 1, kMTransY = 0,
                        kMPersp0 = 0, kMPersp1 = 0, kMPersp2 = 1 \<rparr>"
  by (simp add: setRotate_def setSinCos_def SkDegreesToRadians_def)

lemma setRotate_270:
  "setRotate 270 m = \<lparr> kMScaleX = 0, kMSkewX = 1, kMTransX = 0,
                        kMSkewY = - 1, kMScaleY = 0, kMTransY = 0,
                        kMPersp0 = 0, kMPersp1 = 0, kMPersp2 = 1 \<rparr>"
proof -
  have "(270::real) * (pi / 180) = 3 / 2 * pi" by simp
  then show ?thesis
    by (simp only: setRotate_def setSinCos_def SkDegreesToRadians_def
        sin_3over2_pi cos_3over2_pi) simp
qed

lemma createMatrix_ROTATE_90:
  "createMatrixFromBufferTransform w h ANATIVEWINDOW_TRANSFORM_ROTATE_90 =
     (\<lparr> kMScaleX = 0, kMSkewX = - 1, kMTransX = w,
        kMSkewY = 1, kMScaleY = 0, kMTransY = 0,
        kMPersp0 = 0, kMPersp1 = 0, kMPersp2 = 1 \<rparr>, [])"
  by (simp add: createMatrixFromBufferTransform_def setRotate_90 postTranslate_def
      hasPerspective_def ANATIVEWINDOW_TRANSFORM_ROTATE_90_def)

lemma createMatrix_ROTATE_180:
  "createMatrixFromBufferTransform w h ANATIVEWINDOW_TRANSFORM_ROTATE_180 =
     (\<lparr> kMScaleX = - 1, kMSkewX = 0, kMTransX = w,
        kMSkewY = 0, kMScaleY = - 1, kMTransY = h,
        kMPersp0 = 0, kMPersp1 = 0, kMPersp2 = 1 \<rparr>, [])"
  by (simp add: createMatrixFromBufferTransform_def setRotate_180 postTranslate_def
      hasPerspective_def ANATIVEWINDOW_TRANSFORM_ROTATE_180_def
      ANATIVEWINDOW_TRANSFORM_ROTATE_90_def)

lemma createMatrix_ROTATE_270:
  "createMatrixFromBufferTransform w h ANATIVEWINDOW_TRANSFORM_ROTATE_270 =
     (\<lparr> kMScaleX = 0, kMSkewX = 1, kMTransX = 0,
        kMSkewY = - 1, kMScaleY = 0, kMTransY = w,
        kMPersp0 = 0, kMPersp1 = 0, kMPersp2 = 1 \<rparr>, [])"
  by (simp add: createMatrixFromBufferTransform_def setRotate_270 postTranslate_def
      hasPerspective_def ANATIVEWINDOW_TRANSFORM_ROTATE_180_def
      ANATIVEWINDOW_TRANSFORM_ROTATE_90_def ANATIVEWINDOW_TRANSFORM_ROTATE_270_def)

lemma createMatrix_IDENTITY:
  "createMatrixFromBufferTransform w h ANATIVEWINDOW_TRANSFORM_IDENTITY = (SkMatrix_I, [])"
  by (simp add: createMatrixFromBufferTransform_def ANATIVEWINDOW_TRANSFORM_ROTATE_180_def
      ANATIVEWINDOW_TRANSFORM_ROTATE_90_def ANATIVEWINDOW_TRANSFORM_ROTATE_270_def
      ANATIVEWINDOW_TRANSFORM_IDENTITY_def)

lemma createMatrix_invalid:
  assumes "transform \<noteq> ANATIVEWINDOW_TRANSFORM_IDENTITY"
    and "transform \<noteq> ANATIVEWINDOW_TRANSFORM_ROTATE_90"
    and "transform \<noteq> ANATIVEWINDOW_TRANSFORM_ROTATE_180"
    and "transform \<noteq> ANATIVEWINDOW_TRANSFORM_ROTATE_270"
  shows "createMatrixFromBufferTransform w h transform
           = (SkMatrix_I, [invalid_transform_message])"
  using assms by (simp add: createMatrixFromBufferTransform_def)

lemma rotate_about_origin_90: "rotate_about_origin 90 p = (- snd p, fst p)"
  by (simp add: rotate_about_origin_def)

lemma rotate_about_origin_180: "rotate_about_origin 180 p = (- fst p, - snd p)"
  by (simp add: rotate_about_origin_def)

lemma rotate_about_origin_270: "rotate_about_origin 270 p = (snd p, - fst p)"
proof -
  have "(270::real) * pi / 180 = 3 / 2 * pi" by simp
  then show ?thesis
    by (simp only: rotate_about_origin_def sin_3over2_pi cos_3over2_pi) simp
qed

lemma logical_corners_simps:
  "logical_corners w h ANATIVEWINDOW_TRANSFORM_IDENTITY = [(0, 0), (w, 0), (w, h), (0, h)]"
  "logical_corners w h ANATIVEWINDOW_TRANSFORM_ROTATE_90 = [(0, 0), (h, 0), (h, w), (0, w)]"
  "logical_corners w h ANATIVEWINDOW_TRANSFORM_ROTATE_180 = [(0, 0), (w, 0), (w, h), (0, h)]"
  "logical_corners w h ANATIVEWINDOW_TRANSFORM_ROTATE_270 = [(0, 0), (h, 0), (h, w), (0, w)]"
  by (simp_all add: logical_corners_def
      ANATIVEWINDOW_TRANSFORM_IDENTITY_def ANATIVEWINDOW_TRANSFORM_ROTATE_90_def
      ANATIVEWINDOW_TRANSFORM_ROTATE_180_def ANATIVEWINDOW_TRANSFORM_ROTATE_270_def)

text \<open>
  The identity, the quarter turn and the half turn take the corners of the logical
  rectangle to the corners of \<open>[0, w] \<times> [0, h]\<close>, in rotated order, for all \<open>w\<close> and
  \<open>h\<close>.
\<close>

lemma corners_identity_90_180:
  "map (mapXY (fst (createMatrixFromBufferTransform w h ANATIVEWINDOW_TRANSFORM_IDENTITY)))
       (logical_corners w h ANATIVEWINDOW_TRANSFORM_IDENTITY)
     = [(0, 0), (w, 0), (w, h), (0, h)]
   \<and> map (mapXY (fst (createMatrixFromBufferTransform w h ANATIVEWINDOW_TRANSFORM_ROTATE_90)))
       (logical_corners w h ANATIVEWINDOW_TRANSFORM_ROTATE_90)
     = [(w, 0), (w, h), (0, h), (0, 0)]
   \<and> map (mapXY (fst (createMatrixFromBufferTransform w h ANATIVEWINDOW_TRANSFORM_ROTATE_180)))
       (logical_corners w h ANATIVEWINDOW_TRANSFORM_ROTATE_180)
     = [(w, h), (0, h), (0, 0), (w, 0)]"
  by (simp add: createMatrix_IDENTITY createMatrix_ROTATE_90 createMatrix_ROTATE_180
      logical_corners_simps mapXY_def hasPerspective_def SkMatrix_I_def)

text \<open>
  The three-quarter turn takes them to the corners of \<open>[0, w] \<times> [w - h, w]\<close>: the
  rectangle is displaced by \<open>w - h\<close> along the second axis.
\<close>

lemma corners_270:
  "map (mapXY (fst (createMatrixFromBufferTransform w h ANATIVEWINDOW_TRANSFORM_ROTATE_270)))
       (logical_corners w h ANATIVEWINDOW_TRANSFORM_ROTATE_270)
     = [(0, w), (0, w - h), (w, w - h), (w, w)]"
  by (simp add: createMatrix_ROTATE_270 logical_corners_simps mapXY_def hasPerspective_def)

text \<open>
  Read the other way, with \<open>w\<close> and \<open>h\<close> the sides of the logical rectangle
  \<open>[0, w] \<times> [0, h]\<close> and the buffer \<open>[0, h] \<times> [0, w]\<close>, the three-quarter turn fits
  and the quarter turn is the one that is displaced, again by \<open>w - h\<close>.  So the two
  quarter-turn branches agree with each other only for square buffers.
\<close>

lemma corners_quarter_turns_logical_size:
  "map (mapXY (fst (createMatrixFromBufferTransform w h ANATIVEWINDOW_TRANSFORM_ROTATE_270)))
       [(0, 0), (w, 0), (w, h), (0, h)]
     = [(0, w), (0, 0), (h, 0), (h, w)]
   \<and> map (mapXY (fst (createMatrixFromBufferTransform w h ANATIVEWINDOW_TRANSFORM_ROTATE_90)))
       [(0, 0), (w, 0), (w, h), (0, h)]
     = [(w, 0), (w, w), (w - h, w), (w - h, 0)]"
  by (simp add: createMatrix_ROTATE_270 createMatrix_ROTATE_90 mapXY_def hasPerspective_def)

section \<open>Facts about the scalar conversion\<close>

lemma truncate_nonneg: "0 \<le> x \<Longrightarrow> truncate_toward_zero x = \<lfloor>x\<rfloor>"
  by (simp add: truncate_toward_zero_def)

lemma to_uint8_t_unit:
  assumes "0 \<le> a" and "a \<le> 1"
  shows "to_uint8_t (255 * a) = Some (word_of_int \<lfloor>255 * a\<rfloor>)"
proof -
  have "0 \<le> 255 * a" and "255 * a \<le> 255" using assms by simp_all
  then have "0 \<le> \<lfloor>255 * a\<rfloor>" and "\<lfloor>255 * a\<rfloor> \<le> 255"
    by (simp_all add: floor_le_iff le_floor_iff)
  then show ?thesis
    using \<open>0 \<le> 255 * a\<close> by (simp add: to_uint8_t_def truncate_nonneg)
qed

section \<open>Facts about root creation\<close>

lemma live_after_createRootNode:
  "live (snd (android_graphics_HardwareBufferRenderer_createRootNode operator_new env heap))
     = insert (operator_new (live heap)) (live heap)"
  by (auto simp: android_graphics_HardwareBufferRenderer_createRootNode_def Let_def live_def
      incStrong_def setName_def update_node_def)

lemma node_after_createRootNode:
  "nodes (snd (android_graphics_HardwareBufferRenderer_createRootNode operator_new env heap))
     = (nodes heap)(operator_new (live heap) \<mapsto>
          \<lparr> mName = ''RootRenderNode'', mCount = 1, mErrorHandler = javaVM env \<rparr>)"
  by (simp add: android_graphics_HardwareBufferRenderer_createRootNode_def Let_def
      incStrong_def setName_def update_node_def RootRenderNode_new_def JvmErrorReporter_def)

lemma proxies_after_createRootNode:
  "proxies (snd (android_graphics_HardwareBufferRenderer_createRootNode operator_new env heap))
     = proxies heap"
  by (simp add: android_graphics_HardwareBufferRenderer_createRootNode_def Let_def
      incStrong_def setName_def update_node_def)

lemma handle_of_createRootNode:
  "fst (android_graphics_HardwareBufferRenderer_createRootNode operator_new env heap)
     = operator_new (live heap)"
  by (simp add: android_graphics_HardwareBufferRenderer_createRootNode_def Let_def)

lemma example_createRootNode:
  "android_graphics_HardwareBufferRenderer_createRootNode example_operator_new example_env
     empty_heap
   = (4096, \<lparr> nodes = [4096 \<mapsto> \<lparr> mName = ''RootRenderNode'', mCount = 1,
                                     mErrorHandler = Some (JavaVM 1) \<rparr>],
              proxies = Map.empty \<rparr>)"
  by (simp add: android_graphics_HardwareBufferRenderer_createRootNode_def Let_def
      incStrong_def setName_def update_node_def RootRenderNode_new_def JvmErrorReporter_def
      example_operator_new_def example_env_def empty_heap_def live_def)

text \<open>
  \<open>example_heap\<close> is what the binding layer builds: a root from
  \<^verbatim>\<open>createRootNode\<close>, then a proxy from \<^verbatim>\<open>create\<close>, and no render call.
\<close>

lemma example_heap_built:
  "android_graphics_HardwareBufferRenderer_create example_operator_new example_fromHardwareBuffer
     (snd (android_graphics_HardwareBufferRenderer_createRootNode example_operator_new
             example_env empty_heap)) (JObject 3) 4096
   = Inr (8192, example_heap)"
  by (simp add: example_createRootNode android_graphics_HardwareBufferRenderer_create_def
      Let_def RenderProxy_new_def incStrong_def update_node_def setHardwareBuffer_def
      example_operator_new_def example_fromHardwareBuffer_def live_def example_heap_def
      numeral_2_eq_2)

section \<open>Facts about render\<close>

text \<open>
  The width reaches the matrix through the conversion: a render call with width
  16777217 and the quarter turn stores the translation 16777216.
\<close>

lemma render_converts_width:
  "android_graphics_HardwareBufferRenderer_render example_syncAndDrawFrame
       example_getNativeColorSpace example_env example_proxy
       ANATIVEWINDOW_TRANSFORM_ROTATE_90 16777217 200 7 None
     = Inr (0,
            example_proxy \<lparr> mHardwareBufferRenderParams := Some
               \<lparr> mTransform = \<lparr> kMScaleX = 0, kMSkewX = - 1, kMTransX = 16777216,
                                kMSkewY = 1, kMScaleY = 0, kMTransY = 0,
                                kMPersp0 = 0, kMPersp1 = 0, kMPersp2 = 1 \<rparr>,
                 mColorSpace = SkColorSpace 7,
                 mRenderCallback = None \<rparr> \<rparr>,
            example_env, [])"
  by (simp add: android_graphics_HardwareBufferRenderer_render_def createRenderCallback_def
      setHardwareBufferRenderParams_def SkScalar_of_jint_16777217 createMatrix_ROTATE_90
      example_syncAndDrawFrame_def example_getNativeColorSpace_def)

section \<open>The transform builder: claims C1, C3 and C4\<close>

text \<open>
  C1.  The claim: for each of the four orientations and all positive sizes the built
  matrix takes the four corners of the logical content rectangle onto the four corners
  of \<open>[0, width] \<times> [0, height]\<close> and no point outside it.  The builder does so for
  the identity, the quarter turn and the half turn (\<open>corners_identity_90_180\<close>).
  For the three-quarter turn it translates by \<open>(0, width)\<close> where the rectangle
  needs \<open>(0, height)\<close>: with a physical size of 200 by 100 the logical corners go to
  \<open>(0, 200), (0, 100), (200, 100), (200, 200)\<close>; the corner \<open>(0, 0)\<close> lands on
  \<open>(0, 200)\<close>, which is outside \<open>[0, 200] \<times> [0, 100]\<close> and is none of its corners.
\<close>

theorem rotate_270_corners_leave_physical_rect:
  "map (mapXY (fst (createMatrixFromBufferTransform 200 100 ANATIVEWINDOW_TRANSFORM_ROTATE_270)))
       (logical_corners 200 100 ANATIVEWINDOW_TRANSFORM_ROTATE_270)
     = [(0, 200), (0, 100), (200, 100), (200, 200)]
   \<and> mapXY (fst (createMatrixFromBufferTransform 200 100 ANATIVEWINDOW_TRANSFORM_ROTATE_270)) (0, 0)
     = (0, 200)
   \<and> \<not> in_physical_rect 200 100 (0, 200)
   \<and> (0, 200) \<notin> physical_corners 200 100"
  by (simp add: createMatrix_ROTATE_270 logical_corners_simps mapXY_def hasPerspective_def
      in_physical_rect_def physical_corners_def)

text \<open>
  The claim of C3 as stated, that with an orientation value other than the four valid
  ones no error is surfaced and the render call proceeds, fails for a call whose sink
  is not null in an environment that does not yield the virtual machine: the
  orientation 5 is invalid, and the call aborts in the callback wrapper instead of
  proceeding.
\<close>

theorem render_invalid_transform_aborts_without_java_vm:
  "(5::jint) \<notin> {ANATIVEWINDOW_TRANSFORM_IDENTITY, ANATIVEWINDOW_TRANSFORM_ROTATE_90,
                 ANATIVEWINDOW_TRANSFORM_ROTATE_180, ANATIVEWINDOW_TRANSFORM_ROTATE_270}
   \<and> android_graphics_HardwareBufferRenderer_render example_syncAndDrawFrame
         example_getNativeColorSpace example_env_without_vm example_proxy 5 100 200 0
         (Some (JObject 1))
       = Inl (LogAlwaysFatal ''Unable to get Java VM'')"
  by (simp add: android_graphics_HardwareBufferRenderer_render_def createRenderCallback_def
      example_env_without_vm_def ANATIVEWINDOW_TRANSFORM_IDENTITY_def
      ANATIVEWINDOW_TRANSFORM_ROTATE_90_def ANATIVEWINDOW_TRANSFORM_ROTATE_180_def
      ANATIVEWINDOW_TRANSFORM_ROTATE_270_def split: prod.splits)

text \<open>
  C3, amended.  For every orientation value other than the four valid ones, and every
  width and height, the builder returns the identity matrix and writes exactly one
  log record.  Every render call with such a value whose sink is null or whose
  environment yields the virtual machine surfaces no error: the callback wrapper
  returns, the identity matrix is stored as the transform, the synchronous step runs
  and the call returns its status.
\<close>

theorem invalid_transform_falls_back_to_identity:
  assumes "transform \<notin> {ANATIVEWINDOW_TRANSFORM_IDENTITY, ANATIVEWINDOW_TRANSFORM_ROTATE_90,
                         ANATIVEWINDOW_TRANSFORM_ROTATE_180, ANATIVEWINDOW_TRANSFORM_ROTATE_270}"
  shows "createMatrixFromBufferTransform w h transform = (SkMatrix_I, [invalid_transform_message])
    \<and> (consumer = None \<or> javaVM env \<noteq> None \<longrightarrow>
        (\<exists>callback env'.
           createRenderCallback env consumer = Inr (callback, env')
         \<and> android_graphics_HardwareBufferRenderer_render syncAndDrawFrame getNativeColorSpace
              env proxy transform width height colorspacePtr consumer
            = Inr (fst (syncAndDrawFrame (proxy \<lparr> mHardwareBufferRenderParams := Some
                          \<lparr> mTransform = SkMatrix_I,
                            mColorSpace = getNativeColorSpace colorspacePtr,
                            mRenderCallback = callback \<rparr> \<rparr>)),
                   snd (syncAndDrawFrame (proxy \<lparr> mHardwareBufferRenderParams := Some
                          \<lparr> mTransform = SkMatrix_I,
                            mColorSpace = getNativeColorSpace colorspacePtr,
                            mRenderCallback = callback \<rparr> \<rparr>)),
                   env', [invalid_transform_message])))"
proof -
  have m: "createMatrixFromBufferTransform x y transform
             = (SkMatrix_I, [invalid_transform_message])" for x y
    using assms by (simp add: createMatrix_invalid)
  have r: "\<exists>callback env'.
           createRenderCallback env consumer = Inr (callback, env')
         \<and> android_graphics_HardwareBufferRenderer_render syncAndDrawFrame getNativeColorSpace
              env proxy transform width height colorspacePtr consumer
            = Inr (fst (syncAndDrawFrame (proxy \<lparr> mHardwareBufferRenderParams := Some
                          \<lparr> mTransform = SkMatrix_I,
                            mColorSpace = getNativeColorSpace colorspacePtr,
                            mRenderCallback = callback \<rparr> \<rparr>)),
                   snd (syncAndDrawFrame (proxy \<lparr> mHardwareBufferRenderParams := Some
                          \<lparr> mTransform = SkMatrix_I,
                            mColorSpace = getNativeColorSpace colorspacePtr,
                            mRenderCallback = callback \<rparr> \<rparr>)),
                   env', [invalid_transform_message])"
    if ok: "consumer = None \<or> javaVM env \<noteq> None"
  proof -
    have "\<exists>callback env'. createRenderCallback env consumer = Inr (callback, env')"
      using ok by (cases consumer; cases "javaVM env") (simp_all add: createRenderCallback_def)
    then obtain callback env' where c: "createRenderCallback env consumer = Inr (callback, env')"
      by blast
    show ?thesis
      by (simp add: c m android_graphics_HardwareBufferRenderer_render_def
          setHardwareBufferRenderParams_def split: prod.splits)
  qed
  show ?thesis using m r by blast
qed

text \<open>
  The orientation 5 with a sink and a virtual machine: one log record, the identity
  matrix stored with the wrapped sink, status returned.
\<close>

theorem invalid_transform_falls_back_to_identity_witness:
  "(5::jint) \<notin> {ANATIVEWINDOW_TRANSFORM_IDENTITY, ANATIVEWINDOW_TRANSFORM_ROTATE_90,
                 ANATIVEWINDOW_TRANSFORM_ROTATE_180, ANATIVEWINDOW_TRANSFORM_ROTATE_270}
   \<and> (Some (JObject 1) = None \<or> javaVM example_env \<noteq> None)
   \<and> createMatrixFromBufferTransform 100 200 5 = (SkMatrix_I, [invalid_transform_message])
   \<and> android_graphics_HardwareBufferRenderer_render example_syncAndDrawFrame
         example_getNativeColorSpace example_env example_proxy 5 100 200 7 (Some (JObject 1))
       = Inr (0, example_proxy \<lparr> mHardwareBufferRenderParams := Some
                          \<lparr> mTransform = SkMatrix_I,
                            mColorSpace = SkColorSpace 7,
                            mRenderCallback =
                              Some (RenderCallback \<lparr> mVm = JavaVM 1, mGlobalRef = JObject 1 \<rparr>) \<rparr> \<rparr>,
                example_env \<lparr> globalRefs := [JObject 1] \<rparr>,
                [invalid_transform_message])"
proof -
  have h: "(5::jint) \<notin> {ANATIVEWINDOW_TRANSFORM_IDENTITY, ANATIVEWINDOW_TRANSFORM_ROTATE_90,
                 ANATIVEWINDOW_TRANSFORM_ROTATE_180, ANATIVEWINDOW_TRANSFORM_ROTATE_270}"
    by (simp add: ANATIVEWINDOW_TRANSFORM_IDENTITY_def ANATIVEWINDOW_TRANSFORM_ROTATE_90_def
      ANATIVEWINDOW_TRANSFORM_ROTATE_180_def ANATIVEWINDOW_TRANSFORM_ROTATE_270_def)
  have v: "Some (JObject 1) = None \<or> javaVM example_env \<noteq> None"
    by (simp add: example_env_def)
  show ?thesis
    using h v invalid_transform_falls_back_to_identity [where transform = 5 and w = 100
        and h = 200 and syncAndDrawFrame = example_syncAndDrawFrame
        and getNativeColorSpace = example_getNativeColorSpace and env = example_env
        and proxy = example_proxy and width = 100 and height = 200 and colorspacePtr = 7
        and consumer = "Some (JObject 1)"]
    by (simp add: createRenderCallback_def example_env_def example_syncAndDrawFrame_def
        example_getNativeColorSpace_def)
qed

text \<open>
  C4.  For every width and height the builder returns the identity matrix for the
  identity orientation; for the quarter turn the rotation by 90 degrees followed by
  the translation by \<open>(width, 0)\<close>; for the half turn the rotation by 180 degrees
  followed by the translation by \<open>(width, height)\<close>; for the three-quarter turn the
  rotation by 270 degrees followed by the translation by \<open>(0, width)\<close>.  Each is
  stated twice: as the sequence of matrix operations, and as the action on an
  arbitrary point, compared with the rotation and translation of the plane.
\<close>

theorem createMatrixFromBufferTransform_construction:
  "fst (createMatrixFromBufferTransform w h ANATIVEWINDOW_TRANSFORM_IDENTITY) = SkMatrix_I
   \<and> fst (createMatrixFromBufferTransform w h ANATIVEWINDOW_TRANSFORM_ROTATE_90)
       = postTranslate w 0 (setRotate 90 SkMatrix_I)
   \<and> mapXY (fst (createMatrixFromBufferTransform w h ANATIVEWINDOW_TRANSFORM_ROTATE_90)) p
       = translate_by (w, 0) (rotate_about_origin 90 p)
   \<and> fst (createMatrixFromBufferTransform w h ANATIVEWINDOW_TRANSFORM_ROTATE_180)
       = postTranslate w h (setRotate 180 SkMatrix_I)
   \<and> mapXY (fst (createMatrixFromBufferTransform w h ANATIVEWINDOW_TRANSFORM_ROTATE_180)) p
       = translate_by (w, h) (rotate_about_origin 180 p)
   \<and> fst (createMatrixFromBufferTransform w h ANATIVEWINDOW_TRANSFORM_ROTATE_270)
       = postTranslate 0 w (setRotate 270 SkMatrix_I)
   \<and> mapXY (fst (createMatrixFromBufferTransform w h ANATIVEWINDOW_TRANSFORM_ROTATE_270)) p
       = translate_by (0, w) (rotate_about_origin 270 p)"
  by (simp add: createMatrix_IDENTITY createMatrix_ROTATE_90 createMatrix_ROTATE_180
      createMatrix_ROTATE_270 rotate_about_origin_90 rotate_about_origin_180
      rotate_about_origin_270 translate_by_def mapXY_def hasPerspective_def
      setRotate_90 setRotate_180 setRotate_270 postTranslate_def)

section \<open>Light alpha: claim C2\<close>

text \<open>
  The claim of C2 as stated, that each alpha is stored as
  \<open>round(clamp(value, 0, 1) * 255)\<close>, fails at \<open>0.375\<close>: the product is \<open>95.625\<close>,
  the conversion discards the fraction and stores 95, and the formula gives 96.
\<close>

theorem setLightAlpha_does_not_round:
  "android_graphics_HardwareBufferRenderer_setLightAlpha example_proxy (3 / 8) (3 / 8)
     = Inr (example_proxy \<lparr> mLightAlpha := Some (95, 95) \<rparr>)
   \<and> spec_light_alpha (3 / 8) = 96
   \<and> (95 :: 8 word) \<noteq> word_of_int (spec_light_alpha (3 / 8))"
proof -
  have f: "\<lfloor>(765::real) / 8\<rfloor> = 95" by (simp add: floor_eq_iff)
  have r: "round ((765::real) / 8) = 96" by (simp add: round_def floor_eq_iff)
  show ?thesis
    by (simp add: android_graphics_HardwareBufferRenderer_setLightAlpha_def to_uint8_t_def
        truncate_toward_zero_def f r spec_light_alpha_def clamp01_def setLightAlpha_def)
qed

text \<open>
  C2, amended.  For every pair of inputs between 0 and 1 the call stores each alpha
  as the 8-bit integer \<open>floor(255 * value)\<close>: the fraction of the product is
  discarded, with no rounding to the nearest integer.
\<close>

theorem setLightAlpha_stores_floor:
  assumes "0 \<le> ambientShadowAlpha" and "ambientShadowAlpha \<le> 1"
    and "0 \<le> spotShadowAlpha" and "spotShadowAlpha \<le> 1"
  shows "android_graphics_HardwareBufferRenderer_setLightAlpha proxy
           ambientShadowAlpha spotShadowAlpha
     = Inr (proxy \<lparr> mLightAlpha := Some (word_of_int \<lfloor>255 * ambientShadowAlpha\<rfloor>,
                                            word_of_int \<lfloor>255 * spotShadowAlpha\<rfloor>) \<rparr>)"
  using assms
  by (simp add: android_graphics_HardwareBufferRenderer_setLightAlpha_def to_uint8_t_unit
      setLightAlpha_def)

text \<open>At \<open>(0.5, 0.5)\<close> the stored pair is \<open>(127, 127)\<close>, at \<open>(0, 1)\<close> it is \<open>(0, 255)\<close>.\<close>

theorem setLightAlpha_stores_floor_witness:
  "(0::real) \<le> 1 / 2 \<and> (1::real) / 2 \<le> 1
   \<and> android_graphics_HardwareBufferRenderer_setLightAlpha example_proxy (1 / 2) (1 / 2)
     = Inr (example_proxy \<lparr> mLightAlpha := Some (127, 127) \<rparr>)
   \<and> android_graphics_HardwareBufferRenderer_setLightAlpha example_proxy 0 1
     = Inr (example_proxy \<lparr> mLightAlpha := Some (0, 255) \<rparr>)"
proof -
  have f: "\<lfloor>(255::real) / 2\<rfloor> = 127" by (simp add: floor_eq_iff)
  show ?thesis
    using setLightAlpha_stores_floor [of "1 / 2" "1 / 2" example_proxy]
      setLightAlpha_stores_floor [of 0 1 example_proxy]
    by (simp add: f)
qed

section \<open>Render: claims C5 and C6\<close>

text \<open>
  The claim of C5 as stated, for every call, fails where the sink is not null and the
  virtual machine cannot be obtained: the callback wrapper aborts the process before
  any parameter is stored, the synchronous step is not run and no status is returned.
\<close>

theorem render_aborts_without_java_vm:
  "android_graphics_HardwareBufferRenderer_render example_syncAndDrawFrame
       example_getNativeColorSpace example_env_without_vm example_proxy
       ANATIVEWINDOW_TRANSFORM_IDENTITY 100 200 0 (Some (JObject 1))
     = Inl (LogAlwaysFatal ''Unable to get Java VM'')"
  by (simp add: android_graphics_HardwareBufferRenderer_render_def createRenderCallback_def
      example_env_without_vm_def split: prod.splits)

text \<open>
  C5, amended.  For every render call whose sink is null or whose environment yields
  the virtual machine, the callback wrapper returns, the proxy's render parameters
  are set to exactly the matrix built from the width, the height and the orientation,
  the resolved colour space and the wrapped callback, the synchronous step then runs
  on the proxy with these parameters, and the call returns that step's status.
\<close>

theorem render_sets_params_then_syncs:
  assumes "consumer = None \<or> javaVM env \<noteq> None"
  shows "\<exists>callback env'.
      createRenderCallback env consumer = Inr (callback, env')
    \<and> android_graphics_HardwareBufferRenderer_render syncAndDrawFrame getNativeColorSpace
         env proxy transform width height colorspacePtr consumer
       = Inr (fst (syncAndDrawFrame (proxy \<lparr> mHardwareBufferRenderParams := Some
                 \<lparr> mTransform = fst (createMatrixFromBufferTransform
                                       (SkScalar_of_jint width) (SkScalar_of_jint height) transform),
                   mColorSpace = getNativeColorSpace colorspacePtr,
                   mRenderCallback = callback \<rparr> \<rparr>)),
              snd (syncAndDrawFrame (proxy \<lparr> mHardwareBufferRenderParams := Some
                 \<lparr> mTransform = fst (createMatrixFromBufferTransform
                                       (SkScalar_of_jint width) (SkScalar_of_jint height) transform),
                   mColorSpace = getNativeColorSpace colorspacePtr,
                   mRenderCallback = callback \<rparr> \<rparr>)),
              env',
              snd (createMatrixFromBufferTransform
                     (SkScalar_of_jint width) (SkScalar_of_jint height) transform))"
proof -
  have "\<exists>callback env'. createRenderCallback env consumer = Inr (callback, env')"
    using assms by (cases consumer; cases "javaVM env") (simp_all add: createRenderCallback_def)
  then obtain callback env' where c: "createRenderCallback env consumer = Inr (callback, env')"
    by blast
  show ?thesis
    by (simp add: c android_graphics_HardwareBufferRenderer_render_def
        setHardwareBufferRenderParams_def split: prod.splits)
qed

theorem render_sets_params_then_syncs_witness:
  "(Some (JObject 1) = None \<or> javaVM example_env \<noteq> None)
   \<and> android_graphics_HardwareBufferRenderer_render example_syncAndDrawFrame
         example_getNativeColorSpace example_env example_proxy
         ANATIVEWINDOW_TRANSFORM_ROTATE_90 100 200 7 (Some (JObject 1))
       = Inr (0,
              example_proxy \<lparr> mHardwareBufferRenderParams := Some
                 \<lparr> mTransform = \<lparr> kMScaleX = 0, kMSkewX = - 1, kMTransX = 100,
                                  kMSkewY = 1, kMScaleY = 0, kMTransY = 0,
                                  kMPersp0 = 0, kMPersp1 = 0, kMPersp2 = 1 \<rparr>,
                   mColorSpace = SkColorSpace 7,
                   mRenderCallback =
                     Some (RenderCallback \<lparr> mVm = JavaVM 1, mGlobalRef = JObject 1 \<rparr>) \<rparr> \<rparr>,
              example_env \<lparr> globalRefs := [JObject 1] \<rparr>,
              [])"
proof -
  have h: "Some (JObject 1) = None \<or> javaVM example_env \<noteq> None"
    by (simp add: example_env_def)
  note w = SkScalar_of_jint_100_200
  show ?thesis
    using h render_sets_params_then_syncs [where consumer = "Some (JObject 1)"
        and env = example_env and syncAndDrawFrame = example_syncAndDrawFrame
        and getNativeColorSpace = example_getNativeColorSpace and proxy = example_proxy
        and transform = ANATIVEWINDOW_TRANSFORM_ROTATE_90 and width = 100 and height = 200
        and colorspacePtr = 7]
    by (simp add: w createMatrix_ROTATE_90 createRenderCallback_def example_env_def
        example_syncAndDrawFrame_def example_getNativeColorSpace_def)
qed

text \<open>
  C6.  When the sink is null the callback wrapper returns the empty callback and
  leaves the environment as it was (no global reference is created), whatever the
  state of the environment; the render call stores the empty callback with the other
  parameters, runs the synchronous step and returns its status.
\<close>

theorem render_with_null_sink:
  "createRenderCallback env None = Inr (None, env)
   \<and> android_graphics_HardwareBufferRenderer_render syncAndDrawFrame getNativeColorSpace
         env proxy transform width height colorspacePtr None
       = Inr (fst (syncAndDrawFrame (proxy \<lparr> mHardwareBufferRenderParams := Some
                 \<lparr> mTransform = fst (createMatrixFromBufferTransform
                                       (SkScalar_of_jint width) (SkScalar_of_jint height) transform),
                   mColorSpace = getNativeColorSpace colorspacePtr,
                   mRenderCallback = None \<rparr> \<rparr>)),
              snd (syncAndDrawFrame (proxy \<lparr> mHardwareBufferRenderParams := Some
                 \<lparr> mTransform = fst (createMatrixFromBufferTransform
                                       (SkScalar_of_jint width) (SkScalar_of_jint height) transform),
                   mColorSpace = getNativeColorSpace colorspacePtr,
                   mRenderCallback = None \<rparr> \<rparr>)),
              env,
              snd (createMatrixFromBufferTransform
                     (SkScalar_of_jint width) (SkScalar_of_jint height) transform))"
  by (simp add: android_graphics_HardwareBufferRenderer_render_def createRenderCallback_def
      setHardwareBufferRenderParams_def split: prod.splits)

section \<open>Root creation: claim C8\<close>

text \<open>
  C8.  With an allocator that returns an address that is not live, a call to
  \<^verbatim>\<open>createRootNode\<close> returns a handle that was not live before; at that handle the
  heap holds a root named \<open>RootRenderNode\<close> whose strong count is 1, raised from the
  0 of construction before the call returns; the other roots and all proxies are as
  before; and a second call returns a different handle and leaves the first root in
  place.
\<close>

theorem createRootNode_fresh_strong_distinct:
  assumes "operator_new (live heap) \<notin> live heap"
    and "operator_new (live (snd (android_graphics_HardwareBufferRenderer_createRootNode
                                    operator_new env heap)))
           \<notin> live (snd (android_graphics_HardwareBufferRenderer_createRootNode
                           operator_new env heap))"
  shows "fst (android_graphics_HardwareBufferRenderer_createRootNode operator_new env heap)
           \<notin> live heap
    \<and> nodes (snd (android_graphics_HardwareBufferRenderer_createRootNode operator_new env heap))
        (fst (android_graphics_HardwareBufferRenderer_createRootNode operator_new env heap))
        = Some \<lparr> mName = ''RootRenderNode'', mCount = 1, mErrorHandler = javaVM env \<rparr>
    \<and> (\<forall>p. p \<noteq> fst (android_graphics_HardwareBufferRenderer_createRootNode operator_new env heap)
          \<longrightarrow> nodes (snd (android_graphics_HardwareBufferRenderer_createRootNode
                              operator_new env heap)) p = nodes heap p)
    \<and> proxies (snd (android_graphics_HardwareBufferRenderer_createRootNode operator_new env heap))
        = proxies heap
    \<and> fst (android_graphics_HardwareBufferRenderer_createRootNode operator_new env'
             (snd (android_graphics_HardwareBufferRenderer_createRootNode operator_new env heap)))
        \<noteq> fst (android_graphics_HardwareBufferRenderer_createRootNode operator_new env heap)
    \<and> nodes (snd (android_graphics_HardwareBufferRenderer_createRootNode operator_new env'
               (snd (android_graphics_HardwareBufferRenderer_createRootNode operator_new env heap))))
        (fst (android_graphics_HardwareBufferRenderer_createRootNode operator_new env heap))
        = Some \<lparr> mName = ''RootRenderNode'', mCount = 1, mErrorHandler = javaVM env \<rparr>"
proof -
  let ?r1 = "android_graphics_HardwareBufferRenderer_createRootNode operator_new env heap"
  let ?r2 = "android_graphics_HardwareBufferRenderer_createRootNode operator_new env' (snd ?r1)"
  have a: "fst ?r1 \<notin> live heap"
    using assms(1) by (simp add: handle_of_createRootNode)
  have b: "nodes (snd ?r1) (fst ?r1)
             = Some \<lparr> mName = ''RootRenderNode'', mCount = 1, mErrorHandler = javaVM env \<rparr>"
    by (simp add: node_after_createRootNode handle_of_createRootNode)
  have c: "\<forall>p. p \<noteq> fst ?r1 \<longrightarrow> nodes (snd ?r1) p = nodes heap p"
    by (simp add: node_after_createRootNode handle_of_createRootNode)
  have d: "proxies (snd ?r1) = proxies heap"
    by (rule proxies_after_createRootNode)
  have "fst ?r1 \<in> live (snd ?r1)"
    by (simp add: live_after_createRootNode handle_of_createRootNode)
  moreover have "fst ?r2 \<notin> live (snd ?r1)"
    using assms(2) by (simp add: handle_of_createRootNode)
  ultimately have e: "fst ?r2 \<noteq> fst ?r1" by auto
  have f: "nodes (snd ?r2) (fst ?r1)
             = Some \<lparr> mName = ''RootRenderNode'', mCount = 1, mErrorHandler = javaVM env \<rparr>"
    using e b by (simp add: node_after_createRootNode [of operator_new env' "snd ?r1"]
        handle_of_createRootNode [of operator_new env' "snd ?r1"])
  show ?thesis using a b c d e f by blast
qed

theorem createRootNode_fresh_strong_distinct_witness:
  "example_operator_new (live empty_heap) \<notin> live empty_heap
   \<and> android_graphics_HardwareBufferRenderer_createRootNode example_operator_new example_env
        empty_heap
       = (4096, \<lparr> nodes = [4096 \<mapsto> \<lparr> mName = ''RootRenderNode'', mCount = 1,
                                     mErrorHandler = Some (JavaVM 1) \<rparr>],
              proxies = Map.empty \<rparr>)
   \<and> fst (android_graphics_HardwareBufferRenderer_createRootNode example_operator_new example_env
        (snd (android_graphics_HardwareBufferRenderer_createRootNode example_operator_new
                example_env empty_heap))) = 8192"
proof -
  have h1: "example_operator_new (live empty_heap) \<notin> live empty_heap"
    by (simp add: live_def empty_heap_def)
  have h2: "example_operator_new (live (snd (android_graphics_HardwareBufferRenderer_createRootNode
               example_operator_new example_env empty_heap)))
           \<notin> live (snd (android_graphics_HardwareBufferRenderer_createRootNode
               example_operator_new example_env empty_heap))"
    by (simp add: example_createRootNode live_def example_operator_new_def)
  show ?thesis
    using h1 createRootNode_fresh_strong_distinct [OF h1 h2, of example_env]
    by (simp add: example_createRootNode handle_of_createRootNode live_def
        example_operator_new_def)
qed

section \<open>Finalization: claim C9\<close>

text \<open>
  C9.  The address returned by \<^verbatim>\<open>getFinalizer\<close> is the address of the destroy
  routine: a call through it on a proxy handle is a call of
  \<^verbatim>\<open>HardwareBufferRenderer_destroy\<close> on that handle.  For every live proxy, whether
  or not render parameters were ever set on it, the call returns and its effect is
  the one the specification gives for the explicit destroy: the proxy is destroyed,
  its buffer binding and its reference on the root are released, and nothing else
  changes.
\<close>

theorem finalizer_is_destroy:
  assumes "proxies heap renderProxy = Some proxy"
  shows "call_native_routine address_of
           (android_graphics_HardwareBufferRenderer_getFinalizer address_of) renderProxy heap
         = HardwareBufferRenderer_destroy renderProxy heap
    \<and> (\<exists>heap'. HardwareBufferRenderer_destroy renderProxy heap = Inr heap'
                \<and> proxy_destroyed heap renderProxy heap')"
  using assms
  by (simp add: call_native_routine_def android_graphics_HardwareBufferRenderer_getFinalizer_def
      HardwareBufferRenderer_destroy_def RenderProxy_delete_def decStrong_def
      proxy_destroyed_def root_reference_released_def split: option.splits)

text \<open>The proxy of \<open>example_heap\<close> was never rendered; finalizing it gives the root back.\<close>

theorem finalizer_is_destroy_witness:
  "proxies example_heap 8192
     = Some \<lparr> rootRenderNode = 4096, mHardwareBuffer = Some (AHardwareBuffer 3),
              mHardwareBufferRenderParams = None, mLightGeometry = None, mLightAlpha = None \<rparr>
   \<and> call_native_routine example_address_of
        (android_graphics_HardwareBufferRenderer_getFinalizer example_address_of) 8192 example_heap
     = Inr \<lparr> nodes = [4096 \<mapsto> \<lparr> mName = ''RootRenderNode'', mCount = 1,
                                  mErrorHandler = Some (JavaVM 1) \<rparr>],
             proxies = Map.empty \<rparr>"
proof -
  have h: "proxies example_heap 8192
     = Some \<lparr> rootRenderNode = 4096, mHardwareBuffer = Some (AHardwareBuffer 3),
              mHardwareBufferRenderParams = None, mLightGeometry = None, mLightAlpha = None \<rparr>"
    by (simp add: example_heap_def)
  show ?thesis
    using h finalizer_is_destroy [OF h, of example_address_of]
    by (simp add: HardwareBufferRenderer_destroy_def RenderProxy_delete_def decStrong_def
        example_heap_def)
qed

section \<open>The completion callback: claim C10\<close>

text \<open>
  C10.  Whenever the wrapped callback is run on a release-fence descriptor and a
  status, it makes exactly one managed call, to the sink it captured, with the raw
  value of the descriptor and the status; the caller's \<^verbatim>\<open>unique_fd\<close> is left
  holding \<open>-1\<close>, so the native side owns no descriptor afterwards and the destructor
  of that \<^verbatim>\<open>unique_fd\<close> closes nothing.
\<close>

theorem render_callback_releases_fd:
  "call_RenderCallback cb fd status
     = ([invokeRenderCallback (mGlobalRef (globalCallbackRef cb)) (fd_field fd) status],
        fd \<lparr> fd_field := - 1 \<rparr>)
   \<and> unique_fd_destructor (snd (call_RenderCallback cb fd status)) closed_fds = closed_fds"
  by (simp add: call_RenderCallback_def release_def unique_fd_destructor_def)

end
